theory Spec2Isabelle
  imports Main
begin

section \<open>The notebook \<open>misc/python.ipynb\<close>\<close>

text \<open>
  The notebook has three code cells. Each cell is a short sequence of Python statements
  run in the one namespace of the kernel. The cells are embedded statement by statement
  as functions on an explicit interpreter state. Exceptions are values: every
  computation returns either an error or a result, together with the state reached,
  because a cell that raises leaves the kernel in the state of the raise.
\<close>

subsection \<open>Values, errors, state\<close>

datatype error =
    ModuleNotFoundError string
  | NameError string
  | AttributeError string
  | TypeError

text \<open>
  The function objects of the program: the two library functions named in the first
  cell, the two functions defined in the second, and the two functions of the body of
  class \<open>Person\<close> (\<open>__init__\<close> and the getter of \<open>name\<close>).
\<close>

datatype funcobj =
    Cross_validate
  | Signature_fn
  | Func_public
  | Func_private
  | Person_init_fn
  | Person_name_fn

datatype pyclass = Person_cls

datatype pyval =
    PyNone
  | PyStr string
  | PyFunction funcobj
  | PyMethod funcobj nat
  | PyClass pyclass
  | PyRef nat
  | PySignature string

text \<open>An instance: its class and its \<open>__dict__\<close>.\<close>

record pyobj =
  obj_class :: pyclass
  obj_dict :: "string \<rightharpoonup> pyval"

text \<open>
  \<open>globals\<close> is the namespace shared by the cells, \<open>heap\<close> the store of instances,
  \<open>next_addr\<close> the next unused address, \<open>stdout\<close> the text written so far.
  \<open>invoked\<close> is a log of the calls made through call expressions (callee and
  arguments); nothing reads it. Calls of the builtin \<open>print\<close> are not logged.
\<close>

record state =
  globals :: "string \<rightharpoonup> pyval"
  heap :: "nat \<rightharpoonup> pyobj"
  next_addr :: nat
  stdout :: string
  invoked :: "(pyval \<times> pyval list) list"

text \<open>
  What the notebook takes from outside the repository: whether scikit-learn can be
  imported, the text \<open>inspect.signature\<close> renders for a callable, the default
  \<open>repr\<close> of a value (it shows a memory address), and the body of
  \<open>cross_validate\<close>.
\<close>

record env =
  sklearn_importable :: bool
  signature_text :: "pyval \<Rightarrow> string"
  repr_text :: "pyval \<Rightarrow> string"
  cross_validate_body :: "pyval list \<Rightarrow> state \<Rightarrow> (error + pyval) \<times> state"

type_synonym 'a py = "state \<Rightarrow> (error + 'a) \<times> state"

definition py_return :: "'a \<Rightarrow> 'a py" where
  "py_return x = (\<lambda>s. (Inr x, s))"

definition py_raise :: "error \<Rightarrow> 'a py" where
  "py_raise e = (\<lambda>s. (Inl e, s))"

definition py_bind :: "'a py \<Rightarrow> ('a \<Rightarrow> 'b py) \<Rightarrow> 'b py" where
  "py_bind m f = (\<lambda>s. case m s of (Inl e, s') \<Rightarrow> (Inl e, s') | (Inr x, s') \<Rightarrow> f x s')"

definition py_then :: "'a py \<Rightarrow> 'b py \<Rightarrow> 'b py" where
  "py_then m k = py_bind m (\<lambda>_. k)"

text \<open>An expression statement evaluates the expression and drops its value.\<close>

definition expr_stmt :: "'a py \<Rightarrow> unit py" where
  "expr_stmt m = py_then m (py_return ())"

subsection \<open>The parts of Python the cells use\<close>

text \<open>Reading and binding a global name.\<close>

definition lookup :: "string \<Rightarrow> pyval py" where
  "lookup n = (\<lambda>s. case globals s n of
                      Some v \<Rightarrow> (Inr v, s)
                    | None \<Rightarrow> (Inl (NameError n), s))"

definition assign :: "string \<Rightarrow> pyval \<Rightarrow> unit py" where
  "assign n v = (\<lambda>s. (Inr (), s\<lparr>globals := (globals s)(n \<mapsto> v)\<rparr>))"

text \<open>
  \<open>str(v)\<close>: a string is itself, a \<open>Signature\<close> renders as its text, the other
  values have the default \<open>repr\<close>.
\<close>

definition py_str :: "env \<Rightarrow> pyval \<Rightarrow> string" where
  "py_str env v = (case v of
                     PyStr t \<Rightarrow> t
                   | PySignature t \<Rightarrow> t
                   | PyNone \<Rightarrow> ''None''
                   | _ \<Rightarrow> repr_text env v)"

text \<open>
  The builtin \<open>print\<close> with one argument: the text of the value and a newline go to
  standard output, the call returns \<open>None\<close>. No cell binds the name \<open>print\<close>
  (lemma \<open>print_never_bound\<close>), so the name always means the builtin.
\<close>

definition print :: "env \<Rightarrow> pyval \<Rightarrow> pyval py" where
  "print env v = (\<lambda>s. (Inr PyNone, s\<lparr>stdout := stdout s @ py_str env v @ ''\<newline>''\<rparr>))"

text \<open>\<open>from m import n\<close>. The standard library is always there; scikit-learn may not be.\<close>

definition module_attr :: "env \<Rightarrow> string \<Rightarrow> string \<Rightarrow> error + pyval" where
  "module_attr env m n =
     (if m = ''inspect'' \<and> n = ''signature'' then Inr (PyFunction Signature_fn)
      else if m = ''sklearn.model_selection'' \<and> n = ''cross_validate'' \<and> sklearn_importable env
        then Inr (PyFunction Cross_validate)
      else Inl (ModuleNotFoundError m))"

definition import_from :: "env \<Rightarrow> string \<Rightarrow> string \<Rightarrow> unit py" where
  "import_from env m n = (case module_attr env m n of
                            Inl e \<Rightarrow> py_raise e
                          | Inr v \<Rightarrow> assign n v)"

text \<open>
  The attributes a class body defines. A function is a method; a function under
  \<open>@property\<close> alone is a property with a getter and neither setter nor deleter.
\<close>

datatype cattr = Function_attr funcobj | Property_attr funcobj

definition class_attr :: "pyclass \<Rightarrow> string \<Rightarrow> cattr option" where
  "class_attr c n =
     (case c of Person_cls \<Rightarrow>
        if n = ''__init__'' then Some (Function_attr Person_init_fn)
        else if n = ''name'' then Some (Property_attr Person_name_fn)
        else None)"

text \<open>Reading an entry of the \<open>__dict__\<close> of an instance.\<close>

definition load_attr :: "pyval \<Rightarrow> string \<Rightarrow> pyval py" where
  "load_attr obj n = (\<lambda>s. case obj of
       PyRef a \<Rightarrow> (case heap s a of
           Some ob \<Rightarrow> (case obj_dict ob n of
               Some v \<Rightarrow> (Inr v, s)
             | None \<Rightarrow> (Inl (AttributeError n), s))
         | None \<Rightarrow> (Inl (AttributeError n), s))
     | _ \<Rightarrow> (Inl (AttributeError n), s))"

text \<open>
  \<open>obj.n = v\<close>. A property of the class comes first, and one without a setter
  refuses the assignment; any other name is stored in the \<open>__dict__\<close> of the instance.
\<close>

definition setattr :: "pyval \<Rightarrow> string \<Rightarrow> pyval \<Rightarrow> unit py" where
  "setattr obj n v = (\<lambda>s. case obj of
       PyRef a \<Rightarrow> (case heap s a of
           Some ob \<Rightarrow> (case class_attr (obj_class ob) n of
               Some (Property_attr g) \<Rightarrow> (Inl (AttributeError n), s)
             | _ \<Rightarrow> (Inr (), s\<lparr>heap := (heap s)(a \<mapsto> ob\<lparr>obj_dict := (obj_dict ob)(n \<mapsto> v)\<rparr>)\<rparr>))
         | None \<Rightarrow> (Inl (AttributeError n), s))
     | _ \<Rightarrow> (Inl (AttributeError n), s))"

definition alloc :: "pyclass \<Rightarrow> pyval py" where
  "alloc c = (\<lambda>s. (Inr (PyRef (next_addr s)),
                   s\<lparr>heap := (heap s)(next_addr s \<mapsto> \<lparr>obj_class = c, obj_dict = Map.empty\<rparr>),
                     next_addr := Suc (next_addr s)\<rparr>))"

subsection \<open>The third cell: class \<open>Person\<close>\<close>

text \<open>
  \<^verbatim>\<open>
  class Person:
      def __init__(self, name):
          self._name = name

      @property
      def name(self):
          return self._name
  \<close>
  The stored attribute is \<open>_name\<close>. The class defines no attribute of that name, so
  the read \<open>self._name\<close> in the getter is a read of the \<open>__dict__\<close> of the instance
  (lemma \<open>getattr_underscore_name\<close> relates it to the general attribute read).
\<close>

definition Person_init :: "pyval \<Rightarrow> pyval \<Rightarrow> pyval py" where
  "Person_init self name = py_then (setattr self ''_name'' name) (py_return PyNone)"

definition Person_name :: "pyval \<Rightarrow> pyval py" where
  "Person_name self = load_attr self ''_name''"

text \<open>\<open>Person(v)\<close>: a new instance, then \<open>__init__\<close> on it.\<close>

definition Person :: "pyval \<Rightarrow> pyval py" where
  "Person v = py_bind (alloc Person_cls) (\<lambda>p. py_then (Person_init p v) (py_return p))"

text \<open>
  \<open>obj.n\<close>. A property of the class comes first and runs its getter; then the
  \<open>__dict__\<close> of the instance; then a function of the class, bound to the instance.
\<close>

definition getattr :: "pyval \<Rightarrow> string \<Rightarrow> pyval py" where
  "getattr obj n = (\<lambda>s. case obj of
       PyRef a \<Rightarrow> (case heap s a of
           Some ob \<Rightarrow> (case class_attr (obj_class ob) n of
               Some (Property_attr g) \<Rightarrow>
                 (if g = Person_name_fn then Person_name obj s else (Inl TypeError, s))
             | Some (Function_attr f) \<Rightarrow> (case obj_dict ob n of
                   Some v \<Rightarrow> (Inr v, s)
                 | None \<Rightarrow> (Inr (PyMethod f a), s))
             | None \<Rightarrow> load_attr obj n s)
         | None \<Rightarrow> (Inl (AttributeError n), s))
     | _ \<Rightarrow> (Inl (AttributeError n), s))"

subsection \<open>The second cell: \<open>func_public\<close> and \<open>_func_private\<close>\<close>

text \<open>
  \<^verbatim>\<open>
  def func_public():
      print("This is public")

  def _func_private():
      print("This is private")
  \<close>
  An Isabelle name cannot begin with an underscore: \<open>func_private\<close> is the function
  the source names \<open>_func_private\<close>. The global name it is bound to keeps the underscore.
\<close>

definition func_public :: "env \<Rightarrow> pyval py" where
  "func_public env = py_then (print env (PyStr ''This is public'')) (py_return PyNone)"

definition func_private :: "env \<Rightarrow> pyval py" where
  "func_private env = py_then (print env (PyStr ''This is private'')) (py_return PyNone)"

subsection \<open>Calls\<close>

definition callable :: "pyval \<Rightarrow> bool" where
  "callable v = (case v of PyFunction f \<Rightarrow> True | PyMethod f a \<Rightarrow> True | PyClass c \<Rightarrow> True | _ \<Rightarrow> False)"

text \<open>\<open>inspect.signature(f)\<close>: a \<open>Signature\<close> object for a callable, an error otherwise.\<close>

definition signature :: "env \<Rightarrow> pyval list \<Rightarrow> pyval py" where
  "signature env args = (case args of
       [f] \<Rightarrow> if callable f then py_return (PySignature (signature_text env f)) else py_raise TypeError
     | _ \<Rightarrow> py_raise TypeError)"

definition call_function :: "env \<Rightarrow> funcobj \<Rightarrow> pyval list \<Rightarrow> pyval py" where
  "call_function env f args = (case f of
       Cross_validate \<Rightarrow> cross_validate_body env args
     | Signature_fn \<Rightarrow> signature env args
     | Func_public \<Rightarrow> (case args of [] \<Rightarrow> func_public env | _ \<Rightarrow> py_raise TypeError)
     | Func_private \<Rightarrow> (case args of [] \<Rightarrow> func_private env | _ \<Rightarrow> py_raise TypeError)
     | Person_init_fn \<Rightarrow> (case args of [self, v] \<Rightarrow> Person_init self v | _ \<Rightarrow> py_raise TypeError)
     | Person_name_fn \<Rightarrow> (case args of [self] \<Rightarrow> Person_name self | _ \<Rightarrow> py_raise TypeError))"

text \<open>
  \<open>f(args)\<close>. Calling a function runs its body, calling a bound method passes the
  instance first, calling a class constructs an instance; anything else is not callable.
  Every call made through a call expression is logged. The builtin \<open>print\<close> is
  applied directly and is not in the log: what it is given shows in standard output.
\<close>

definition call :: "env \<Rightarrow> pyval \<Rightarrow> pyval list \<Rightarrow> pyval py" where
  "call env f args = (\<lambda>s.
     let s1 = s\<lparr>invoked := invoked s @ [(f, args)]\<rparr> in
     case f of
       PyFunction g \<Rightarrow> call_function env g args s1
     | PyMethod g a \<Rightarrow> call_function env g (PyRef a # args) s1
     | PyClass c \<Rightarrow> (case args of [v] \<Rightarrow> Person v s1 | _ \<Rightarrow> (Inl TypeError, s1))
     | _ \<Rightarrow> (Inl TypeError, s))"

subsection \<open>The cells\<close>

text \<open>
  \<^verbatim>\<open>
  from sklearn.model_selection import cross_validate
  from inspect import signature

  signature = signature(cross_validate)
  print(signature)
  \<close>
\<close>

definition cell1 :: "env \<Rightarrow> unit py" where
  "cell1 env =
     py_then (import_from env ''sklearn.model_selection'' ''cross_validate'')
    (py_then (import_from env ''inspect'' ''signature'')
    (py_then (py_bind (py_bind (lookup ''signature'') (\<lambda>f.
                       py_bind (lookup ''cross_validate'') (\<lambda>x. call env f [x])))
                      (assign ''signature''))
             (expr_stmt (py_bind (lookup ''signature'') (print env)))))"

text \<open>
  \<^verbatim>\<open>
  def func_public(): ...
  def _func_private(): ...

  # Both work fine
  func_public()
  _func_private()
  \<close>
\<close>

definition cell2 :: "env \<Rightarrow> unit py" where
  "cell2 env =
     py_then (assign ''func_public'' (PyFunction Func_public))
    (py_then (assign ''_func_private'' (PyFunction Func_private))
    (py_then (expr_stmt (py_bind (lookup ''func_public'') (\<lambda>f. call env f [])))
             (expr_stmt (py_bind (lookup ''_func_private'') (\<lambda>f. call env f [])))))"

text \<open>
  \<^verbatim>\<open>
  class Person: ...

  person = Person("Alice")
  print(person.name)
  \<close>
\<close>

definition cell3 :: "env \<Rightarrow> unit py" where
  "cell3 env =
     py_then (assign ''Person'' (PyClass Person_cls))
    (py_then (py_bind (py_bind (lookup ''Person'') (\<lambda>c. call env c [PyStr ''Alice'']))
                      (assign ''person''))
             (expr_stmt (py_bind (py_bind (lookup ''person'') (\<lambda>p. getattr p ''name''))
                                 (print env))))"

subsection \<open>Running the notebook\<close>

datatype cell = Cell1 | Cell2 | Cell3

definition run_cell :: "env \<Rightarrow> cell \<Rightarrow> unit py" where
  "run_cell env c = (case c of Cell1 \<Rightarrow> cell1 env | Cell2 \<Rightarrow> cell2 env | Cell3 \<Rightarrow> cell3 env)"

text \<open>
  A session runs cells one after another, in any order and any number of times. A cell
  that raises stops there; the kernel keeps the state and the next cell runs in it.
\<close>

fun exec_cells :: "env \<Rightarrow> cell list \<Rightarrow> state \<Rightarrow> state" where
  "exec_cells env [] s = s"
| "exec_cells env (c # cs) s = exec_cells env cs (snd (run_cell env c s))"

definition fresh :: state where
  "fresh = \<lparr>globals = Map.empty, heap = Map.empty, next_addr = 0, stdout = [], invoked = []\<rparr>"

text \<open>The global names a cell binds.\<close>

definition cell_names :: "cell \<Rightarrow> string set" where
  "cell_names c = (case c of
       Cell1 \<Rightarrow> {''cross_validate'', ''signature''}
     | Cell2 \<Rightarrow> {''func_public'', ''_func_private''}
     | Cell3 \<Rightarrow> {''Person'', ''person''})"

text \<open>
  The environment of the run stored in the notebook: scikit-learn is installed and the
  signature of \<open>cross_validate\<close> renders as the stored output of the first cell shows.
  The other entries are never used by that run.
\<close>

definition recorded_signature :: string where
  "recorded_signature =
     ''(estimator, X, y=None, *, groups=None, scoring=None, cv=None, n_jobs=None, '' @
     ''verbose=0, fit_params=None, params=None, pre_dispatch='' @ [CHR 0x27] @ ''2*n_jobs'' @
     [CHR 0x27] @ '', return_train_score=False, return_estimator=False, '' @
     ''return_indices=False, error_score=nan)''"

definition recorded_env :: env where
  "recorded_env = \<lparr>sklearn_importable = True,
                    signature_text = (\<lambda>v. recorded_signature),
                    repr_text = (\<lambda>v. ''<object>''),
                    cross_validate_body = (\<lambda>args. py_raise TypeError)\<rparr>"

text \<open>
  What a computation adds to standard output and to the log of calls, read off the
  states before and after it.
\<close>

definition emitted :: "'a py \<Rightarrow> state \<Rightarrow> string" where
  "emitted m s = drop (length (stdout s)) (stdout (snd (m s)))"

definition calls_made :: "'a py \<Rightarrow> state \<Rightarrow> (pyval \<times> pyval list) list" where
  "calls_made m s = drop (length (invoked s)) (invoked (snd (m s)))"

section \<open>What each cell does\<close>

lemmas py_defs = py_return_def py_raise_def py_bind_def py_then_def expr_stmt_def
  lookup_def assign_def print_def

text \<open>
  Each cell binds the names it uses before it reads them, so its effect on any state can
  be written down in closed form.
\<close>

lemma cell1_run:
  "cell1 env s =
     (if sklearn_importable env
      then (Inr (), s\<lparr>globals := (globals s)(''cross_validate'' \<mapsto> PyFunction Cross_validate,
                 ''signature'' \<mapsto> PySignature (signature_text env (PyFunction Cross_validate))),
               stdout := stdout s @ signature_text env (PyFunction Cross_validate) @ ''\<newline>'',
               invoked := invoked s @ [(PyFunction Signature_fn, [PyFunction Cross_validate])]\<rparr>)
      else (Inl (ModuleNotFoundError ''sklearn.model_selection''), s))"
  by (simp add: cell1_def py_defs call_def call_function_def signature_def callable_def
      import_from_def module_attr_def py_str_def)

lemma cell2_run:
  "cell2 env s = (Inr (), s\<lparr>globals := (globals s)(''func_public'' \<mapsto> PyFunction Func_public,
                                   ''_func_private'' \<mapsto> PyFunction Func_private),
       stdout := stdout s @ ''This is public\<newline>This is private\<newline>'',
       invoked := invoked s @ [(PyFunction Func_public, []), (PyFunction Func_private, [])]\<rparr>)"
  by (simp add: cell2_def py_defs call_def call_function_def func_public_def func_private_def
      py_str_def)

lemma Person_run:
  "Person v s = (Inr (PyRef (next_addr s)),
      s\<lparr>heap := (heap s)(next_addr s \<mapsto> \<lparr>obj_class = Person_cls, obj_dict = [''_name'' \<mapsto> v]\<rparr>),
        next_addr := Suc (next_addr s)\<rparr>)"
  by (simp add: Person_def Person_init_def alloc_def setattr_def class_attr_def py_defs)

lemma cell3_run:
  "cell3 env s = (Inr (), s\<lparr>globals := (globals s)(''Person'' \<mapsto> PyClass Person_cls,
                                   ''person'' \<mapsto> PyRef (next_addr s)),
       heap := (heap s)(next_addr s \<mapsto>
                 \<lparr>obj_class = Person_cls, obj_dict = [''_name'' \<mapsto> PyStr ''Alice'']\<rparr>),
       next_addr := Suc (next_addr s),
       stdout := stdout s @ ''Alice\<newline>'',
       invoked := invoked s @ [(PyClass Person_cls, [PyStr ''Alice''])]\<rparr>)"
  by (simp add: cell3_def py_defs call_def Person_run getattr_def load_attr_def Person_name_def
      class_attr_def py_str_def)

lemma run_cell_unfold:
  "run_cell env Cell1 = cell1 env" "run_cell env Cell2 = cell2 env" "run_cell env Cell3 = cell3 env"
  by (simp_all add: run_cell_def)

lemma exec_cells_append:
  "exec_cells env (cs @ cs') s = exec_cells env cs' (exec_cells env cs s)"
  by (induction cs arbitrary: s) simp_all

text \<open>The run stored in the notebook: the three cells in order, and their stored outputs.\<close>

lemma recorded_run_output:
  "stdout (exec_cells recorded_env [Cell1, Cell2, Cell3] fresh)
     = recorded_signature @ ''\<newline>This is public\<newline>This is private\<newline>Alice\<newline>''"
  by (simp add: run_cell_unfold cell1_run cell2_run cell3_run recorded_env_def fresh_def)

text \<open>No session binds the name \<open>print\<close>, so it always means the builtin.\<close>

lemma print_never_bound: "globals (exec_cells env cs fresh) ''print'' = None"
proof -
  have "globals s ''print'' = None \<Longrightarrow> globals (exec_cells env cs s) ''print'' = None" for s
  proof (induction cs arbitrary: s)
    case Nil
    then show ?case by simp
  next
    case (Cons c cs)
    have "globals (snd (run_cell env c s)) ''print'' = None"
      using Cons.prems by (cases c) (simp_all add: run_cell_unfold cell1_run cell2_run cell3_run)
    from Cons.IH [OF this] show ?case by simp
  qed
  then show ?thesis by (simp add: fresh_def)
qed

text \<open>The log of calls is only written: a cell behaves the same whatever the log holds.\<close>

lemma invoked_not_read:
  "run_cell env c (s\<lparr>invoked := l\<rparr>)
     = (fst (run_cell env c s), (snd (run_cell env c s))\<lparr>invoked := l @ calls_made (run_cell env c) s\<rparr>)"
  by (cases c) (simp_all add: run_cell_unfold cell1_run cell2_run cell3_run calls_made_def)

section \<open>Attribute access\<close>

lemma load_attr_frame: "snd (load_attr obj n s) = s"
  by (simp add: load_attr_def split: pyval.splits option.splits)

lemma getattr_frame: "snd (getattr obj n s) = s"
  by (simp add: getattr_def Person_name_def load_attr_frame
      split: pyval.splits option.splits cattr.splits)

text \<open>
  The read \<open>self._name\<close> in the getter: the general attribute read of \<open>_name\<close> is the
  read of the \<open>__dict__\<close> of the instance, since the class has no such attribute.
\<close>

lemma getattr_underscore_name: "getattr obj ''_name'' = load_attr obj ''_name''"
  by (rule ext)
    (simp add: getattr_def load_attr_def class_attr_def
      split: pyval.splits option.splits pyclass.splits)

text \<open>
  Assignment is not refused in general: outside the class, \<open>p._name = x\<close> succeeds and
  the next read of \<open>p.name\<close> returns \<open>x\<close>. The program contains no such assignment.
\<close>

lemma setattr_underscore_name:
  "heap s a = Some ob \<Longrightarrow>
   fst (py_then (setattr (PyRef a) ''_name'' x) (getattr (PyRef a) ''name'') s) = Inr x"
  by (cases "obj_class ob")
    (simp add: py_defs setattr_def getattr_def class_attr_def Person_name_def load_attr_def)

lemma getattr_heap_cong:
  "heap s a = heap t a \<Longrightarrow> fst (getattr (PyRef a) n s) = fst (getattr (PyRef a) n t)"
  by (simp add: getattr_def Person_name_def load_attr_def split: option.splits cattr.splits)

section \<open>Sessions\<close>

text \<open>The calls a session makes are among four, whatever the cells and their order.\<close>

lemma run_cell_invoked:
  "set (invoked (snd (run_cell env c s))) \<subseteq>
     set (invoked s) \<union> {(PyFunction Signature_fn, [PyFunction Cross_validate]),
                          (PyFunction Func_public, []), (PyFunction Func_private, []),
                          (PyClass Person_cls, [PyStr ''Alice''])}"
  by (cases c) (auto simp: run_cell_unfold cell1_run cell2_run cell3_run)

lemma exec_cells_invoked:
  "set (invoked (exec_cells env cs s)) \<subseteq>
     set (invoked s) \<union> {(PyFunction Signature_fn, [PyFunction Cross_validate]),
                          (PyFunction Func_public, []), (PyFunction Func_private, []),
                          (PyClass Person_cls, [PyStr ''Alice''])}"
proof (induction cs arbitrary: s)
  case Nil
  show ?case by auto
next
  case (Cons c cs)
  from Cons.IH [of "snd (run_cell env c s)"] run_cell_invoked [of env c s]
  show ?case by auto
qed

lemma run_cell_body_irrelevant:
  "run_cell (env\<lparr>cross_validate_body := b\<rparr>) c s = run_cell env c s"
  by (cases c) (simp_all add: run_cell_unfold cell1_run cell2_run cell3_run)

lemma exec_cells_body_irrelevant:
  "exec_cells (env\<lparr>cross_validate_body := b\<rparr>) cs s = exec_cells env cs s"
  by (induction cs arbitrary: s) (simp_all add: run_cell_body_irrelevant)

text \<open>
  The default \<open>repr\<close> is never used: what a session prints is a string or a
  \<open>Signature\<close>, never a function, a class or an instance.
\<close>

lemma run_cell_repr_irrelevant:
  "run_cell (env\<lparr>repr_text := r\<rparr>) c s = run_cell env c s"
  by (cases c) (simp_all add: run_cell_unfold cell1_run cell2_run cell3_run)

lemma exec_cells_repr_irrelevant:
  "exec_cells (env\<lparr>repr_text := r\<rparr>) cs s = exec_cells env cs s"
  by (induction cs arbitrary: s) (simp_all add: run_cell_repr_irrelevant)

lemma cell1_emitted:
  "emitted (run_cell env Cell1) s =
     (if sklearn_importable env
      then signature_text env (PyFunction Cross_validate) @ ''\<newline>'' else [])"
  by (simp add: emitted_def run_cell_unfold cell1_run)

text \<open>
  Instances live below \<open>next_addr\<close>; a cell leaves every instance that exists as it is
  and creates new ones at fresh addresses only.
\<close>

lemma run_cell_heap:
  "a < next_addr s \<Longrightarrow> heap (snd (run_cell env c s)) a = heap s a"
  by (cases c) (simp_all add: run_cell_unfold cell1_run cell2_run cell3_run)

lemma run_cell_next_addr: "next_addr s \<le> next_addr (snd (run_cell env c s))"
  by (cases c) (simp_all add: run_cell_unfold cell1_run cell2_run cell3_run)

lemma run_cell_heap_bound:
  "\<forall>a\<ge>next_addr s. heap s a = None \<Longrightarrow>
   \<forall>a\<ge>next_addr (snd (run_cell env c s)). heap (snd (run_cell env c s)) a = None"
  by (cases c) (simp_all add: run_cell_unfold cell1_run cell2_run cell3_run)

lemma exec_cells_heap_bound:
  "\<forall>a\<ge>next_addr s. heap s a = None \<Longrightarrow>
   \<forall>a\<ge>next_addr (exec_cells env cs s). heap (exec_cells env cs s) a = None"
proof (induction cs arbitrary: s)
  case Nil
  then show ?case by simp
next
  case (Cons c cs)
  from Cons.IH [OF run_cell_heap_bound [OF Cons.prems]] show ?case by simp
qed

lemma exec_cells_heap:
  "a < next_addr s \<Longrightarrow> heap (exec_cells env cs s) a = heap s a"
proof (induction cs arbitrary: s)
  case Nil
  show ?case by simp
next
  case (Cons c cs)
  have "a < next_addr (snd (run_cell env c s))"
    using Cons.prems run_cell_next_addr [of s env c] by simp
  from Cons.IH [OF this] run_cell_heap [OF Cons.prems] show ?case by simp
qed

section \<open>The claims\<close>

text \<open>
  C1. For every value \<open>v\<close>, the expression \<open>Person(v).name\<close> evaluates to \<open>v\<close>
  itself, in every state; in particular \<open>Person("Alice").name\<close> evaluates to the string
  \<open>"Alice"\<close>.
\<close>

theorem Person_name_returns_value:
  "fst (py_bind (call env (PyClass Person_cls) [v]) (\<lambda>p. getattr p ''name'') s) = Inr v
   \<and> fst (py_bind (call env (PyClass Person_cls) [PyStr ''Alice'']) (\<lambda>p. getattr p ''name'') s)
       = Inr (PyStr ''Alice'')"
  by (simp add: py_bind_def call_def Person_run getattr_def class_attr_def Person_name_def
      load_attr_def)

text \<open>
  C2. Every call of \<open>func_public()\<close> appends exactly \<open>This is public\<close> and a newline to
  standard output, and every call of \<open>_func_private()\<close> appends exactly
  \<open>This is private\<close> and a newline: the literal of the source, once per call. This
  holds for the call expression and for the body of the function alike.
\<close>

theorem functions_print_their_literal:
  "stdout (snd (call env (PyFunction Func_public) [] s)) = stdout s @ ''This is public'' @ ''\<newline>''
   \<and> stdout (snd (call env (PyFunction Func_private) [] s))
       = stdout s @ ''This is private'' @ ''\<newline>''
   \<and> stdout (snd (func_public env s)) = stdout s @ ''This is public'' @ ''\<newline>''
   \<and> stdout (snd (func_private env s)) = stdout s @ ''This is private'' @ ''\<newline>''"
  by (simp add: call_def call_function_def func_public_def func_private_def py_defs py_str_def)

text \<open>
  C3. The leading underscore does not affect callability. In every state a call of
  \<open>_func_private()\<close>, like a call of \<open>func_public()\<close>, completes without an exception
  and returns \<open>None\<close>; and once the \<open>def\<close> has bound the name, the call through the
  name \<open>_func_private\<close> does so as well, exactly as the call through \<open>func_public\<close>.
\<close>

theorem underscore_does_not_affect_callability:
  "fst (call env (PyFunction Func_private) [] s) = Inr PyNone
   \<and> fst (call env (PyFunction Func_public) [] s) = Inr PyNone
   \<and> fst (py_then (assign ''_func_private'' (PyFunction Func_private))
                  (py_bind (lookup ''_func_private'') (\<lambda>f. call env f [])) s) = Inr PyNone
   \<and> fst (py_then (assign ''func_public'' (PyFunction Func_public))
                  (py_bind (lookup ''func_public'') (\<lambda>f. call env f [])) s) = Inr PyNone"
  by (simp add: call_def call_function_def func_public_def func_private_def py_defs)

text \<open>
  C4. \<open>Person.name\<close> is read-only. For every \<open>Person\<close> object \<open>p\<close> (an instance of
  the class at an address of the heap) and every value \<open>x\<close>, the assignment
  \<open>p.name = x\<close> raises \<open>AttributeError\<close> and leaves the whole state as it was; so the
  stored attribute \<open>p._name\<close> reads the same after the failed assignment as before.
\<close>

theorem Person_name_read_only:
  "heap s a = Some ob \<Longrightarrow> obj_class ob = Person_cls \<Longrightarrow>
   setattr (PyRef a) ''name'' x s = (Inl (AttributeError ''name''), s)
   \<and> fst (load_attr (PyRef a) ''_name'' (snd (setattr (PyRef a) ''name'' x s)))
       = fst (load_attr (PyRef a) ''_name'' s)"
  by (simp add: setattr_def class_attr_def)

theorem Person_name_read_only_witness:
  "heap (snd (Person (PyStr ''Alice'') fresh)) 0
     = Some \<lparr>obj_class = Person_cls, obj_dict = [''_name'' \<mapsto> PyStr ''Alice'']\<rparr>
   \<and> setattr (PyRef 0) ''name'' (PyStr ''Bob'') (snd (Person (PyStr ''Alice'') fresh))
       = (Inl (AttributeError ''name''), snd (Person (PyStr ''Alice'') fresh))
   \<and> fst (load_attr (PyRef 0) ''_name''
            (snd (setattr (PyRef 0) ''name'' (PyStr ''Bob'') (snd (Person (PyStr ''Alice'') fresh)))))
       = Inr (PyStr ''Alice'')"
proof -
  have h: "heap (snd (Person (PyStr ''Alice'') fresh)) 0
     = Some \<lparr>obj_class = Person_cls, obj_dict = [''_name'' \<mapsto> PyStr ''Alice'']\<rparr>"
    by (simp add: Person_run fresh_def)
  have c: "obj_class \<lparr>obj_class = Person_cls, obj_dict = [''_name'' \<mapsto> PyStr ''Alice'']\<rparr>
             = Person_cls"
    by simp
  have l: "fst (load_attr (PyRef 0) ''_name'' (snd (Person (PyStr ''Alice'') fresh)))
             = Inr (PyStr ''Alice'')"
    by (simp add: Person_run fresh_def load_attr_def)
  show ?thesis
    using h l Person_name_read_only [OF h c, of "PyStr ''Bob''"] by simp
qed

text \<open>
  C5. When scikit-learn can be imported, each of the three cells runs to completion
  without an exception, from every state of the kernel (so in every session, whatever
  cells ran before): no error branch of a cell is reached.
\<close>

theorem cells_run_to_completion:
  "sklearn_importable env \<Longrightarrow> fst (run_cell env c s) = Inr ()"
  by (cases c) (simp_all add: run_cell_unfold cell1_run cell2_run cell3_run)

theorem cells_run_to_completion_witness:
  "sklearn_importable recorded_env
   \<and> fst (run_cell recorded_env Cell1 fresh) = Inr ()
   \<and> fst (run_cell recorded_env Cell2 fresh) = Inr ()
   \<and> fst (run_cell recorded_env Cell3 fresh) = Inr ()"
proof -
  have h: "sklearn_importable recorded_env" by (simp add: recorded_env_def)
  show ?thesis
    using h cells_run_to_completion [OF h, of Cell1 fresh]
      cells_run_to_completion [OF h, of Cell2 fresh]
      cells_run_to_completion [OF h, of Cell3 fresh] by simp
qed

text \<open>
  C6. Calling and reading have no effect but output. The call
  \<open>signature(cross_validate)\<close> leaves the state as it is; the calls \<open>func_public()\<close>
  and \<open>_func_private()\<close> leave it as it is apart from the text appended to standard
  output; the read \<open>p.name\<close> leaves it as it is. In each case the globals and the heap
  (every field of every object) are those of the state before; the only other record
  of the call is the log of calls, which nothing reads. (The statements that bind a
  name, that is \<open>import\<close>, \<open>def\<close>, \<open>class\<close> and assignment, are not among these
  operations.)
\<close>

theorem operations_only_write_stdout:
  "snd (call env (PyFunction Signature_fn) [PyFunction Cross_validate] s)
     = s\<lparr>invoked := invoked s @ [(PyFunction Signature_fn, [PyFunction Cross_validate])]\<rparr>
   \<and> snd (call env (PyFunction Func_public) [] s)
     = s\<lparr>stdout := stdout s @ ''This is public'' @ ''\<newline>'',
         invoked := invoked s @ [(PyFunction Func_public, [])]\<rparr>
   \<and> snd (call env (PyFunction Func_private) [] s)
     = s\<lparr>stdout := stdout s @ ''This is private'' @ ''\<newline>'',
         invoked := invoked s @ [(PyFunction Func_private, [])]\<rparr>
   \<and> snd (getattr p ''name'' s) = s"
  by (simp add: call_def call_function_def signature_def callable_def func_public_def
      func_private_def py_defs py_str_def getattr_frame)

text \<open>
  C7. \<open>cross_validate\<close> is never invoked. In every session (any cells, any order, any
  number of times, from a fresh kernel) no call in the log has \<open>cross_validate\<close> as its
  callee, and every call that takes \<open>cross_validate\<close> as an argument is a call of
  \<open>inspect.signature\<close>. The state a session reaches does not depend on the body of
  \<open>cross_validate\<close> at all. Nor does it depend on the default \<open>repr\<close>: the calls
  of \<open>print\<close>, which the log leaves out, are never given \<open>cross_validate\<close> or any
  other function object. What the first cell displays is the result of the
  introspection: from every state it writes exactly the text of the signature of
  \<open>cross_validate\<close> and a newline (and nothing when the import fails).
\<close>

theorem cross_validate_never_invoked:
  "(\<forall>(f, args) \<in> set (invoked (exec_cells env cs fresh)).
      f \<noteq> PyFunction Cross_validate
      \<and> (PyFunction Cross_validate \<in> set args \<longrightarrow> f = PyFunction Signature_fn))
   \<and> exec_cells (env\<lparr>cross_validate_body := b\<rparr>) cs fresh = exec_cells env cs fresh
   \<and> exec_cells (env\<lparr>repr_text := r\<rparr>) cs fresh = exec_cells env cs fresh
   \<and> emitted (run_cell env Cell1) s =
       (if sklearn_importable env
        then signature_text env (PyFunction Cross_validate) @ ''\<newline>'' else [])"
proof -
  have l: "\<forall>(f, args) \<in> set (invoked (exec_cells env cs fresh)).
      f \<noteq> PyFunction Cross_validate
      \<and> (PyFunction Cross_validate \<in> set args \<longrightarrow> f = PyFunction Signature_fn)"
    using exec_cells_invoked [of env cs fresh] by (auto simp: fresh_def)
  have b: "exec_cells (env\<lparr>cross_validate_body := b\<rparr>) cs fresh = exec_cells env cs fresh"
    by (rule exec_cells_body_irrelevant)
  have r: "exec_cells (env\<lparr>repr_text := r\<rparr>) cs fresh = exec_cells env cs fresh"
    by (rule exec_cells_repr_irrelevant)
  from l b r cell1_emitted [of env s] show ?thesis by blast
qed

theorem cross_validate_never_invoked_witness:
  "(PyFunction Signature_fn, [PyFunction Cross_validate])
     \<in> set (invoked (exec_cells recorded_env [Cell1, Cell2, Cell3] fresh))
   \<and> PyFunction Signature_fn \<noteq> PyFunction Cross_validate
   \<and> PyFunction Cross_validate \<in> set [PyFunction Cross_validate]
   \<and> exec_cells (recorded_env\<lparr>cross_validate_body := (\<lambda>args. py_return PyNone)\<rparr>)
        [Cell1, Cell2, Cell3] fresh
      = exec_cells recorded_env [Cell1, Cell2, Cell3] fresh
   \<and> exec_cells (recorded_env\<lparr>repr_text := (\<lambda>v. ''<function>'')\<rparr>) [Cell1, Cell2, Cell3] fresh
      = exec_cells recorded_env [Cell1, Cell2, Cell3] fresh
   \<and> sklearn_importable recorded_env
   \<and> emitted (run_cell recorded_env Cell1) fresh = recorded_signature @ ''\<newline>''"
proof -
  have m: "(PyFunction Signature_fn, [PyFunction Cross_validate])
     \<in> set (invoked (exec_cells recorded_env [Cell1, Cell2, Cell3] fresh))"
    by (simp add: run_cell_unfold cell1_run cell2_run cell3_run recorded_env_def fresh_def)
  have i: "sklearn_importable recorded_env"
    and t: "signature_text recorded_env (PyFunction Cross_validate) = recorded_signature"
    by (simp_all add: recorded_env_def)
  from cross_validate_never_invoked
         [of recorded_env "[Cell1, Cell2, Cell3]" "\<lambda>args. py_return PyNone"
             "\<lambda>v. ''<function>''" fresh] m i t
  show ?thesis by auto
qed

text \<open>
  C8. The cells are independent. Take any cell and any two states of the kernel (for
  instance one where the other cells have run and one where they have not). The cell
  ends the same way in both (normally, or with the same exception), writes the same text
  and makes the same calls; it keeps what was on standard output; and it changes no
  global name but the ones it binds itself. The names bound by different cells are
  disjoint. The first cell binds \<open>signature\<close> twice, and no other cell names it.
\<close>

theorem cells_independent:
  "fst (run_cell env c s) = fst (run_cell env c t)
   \<and> emitted (run_cell env c) s = emitted (run_cell env c) t
   \<and> calls_made (run_cell env c) s = calls_made (run_cell env c) t
   \<and> take (length (stdout s)) (stdout (snd (run_cell env c s))) = stdout s
   \<and> globals (snd (run_cell env c s)) |` (- cell_names c) = globals s |` (- cell_names c)
   \<and> cell_names Cell1 \<inter> cell_names Cell2 = {}
   \<and> cell_names Cell1 \<inter> cell_names Cell3 = {}
   \<and> cell_names Cell2 \<inter> cell_names Cell3 = {}"
proof -
  have r: "fst (run_cell env c s) = fst (run_cell env c t)"
    by (cases c) (simp_all add: run_cell_unfold cell1_run cell2_run cell3_run)
  have e: "emitted (run_cell env c) s = emitted (run_cell env c) t"
    by (cases c) (simp_all add: emitted_def run_cell_unfold cell1_run cell2_run cell3_run)
  have k: "calls_made (run_cell env c) s = calls_made (run_cell env c) t"
    by (cases c) (simp_all add: calls_made_def run_cell_unfold cell1_run cell2_run cell3_run)
  have p: "take (length (stdout s)) (stdout (snd (run_cell env c s))) = stdout s"
    by (cases c) (simp_all add: run_cell_unfold cell1_run cell2_run cell3_run)
  have g: "globals (snd (run_cell env c s)) |` (- cell_names c) = globals s |` (- cell_names c)"
    by (cases c)
      (auto simp: run_cell_unfold cell1_run cell2_run cell3_run cell_names_def restrict_map_def)
  have d: "cell_names Cell1 \<inter> cell_names Cell2 = {}" "cell_names Cell1 \<inter> cell_names Cell3 = {}"
    "cell_names Cell2 \<inter> cell_names Cell3 = {}"
    by (simp_all add: cell_names_def)
  from r e k p g d show ?thesis by blast
qed

text \<open>
  C9. For every value \<open>v\<close>, the attribute \<open>_name\<close> of the object \<open>Person(v)\<close> can be
  read from outside the class: the read \<open>Person(v)._name\<close> raises nothing and gives
  \<open>v\<close>, the same as \<open>Person(v).name\<close>. The underscore restricts nothing.
\<close>

theorem underscore_name_readable:
  "fst (py_bind (call env (PyClass Person_cls) [v]) (\<lambda>p. getattr p ''_name'') s) = Inr v
   \<and> fst (py_bind (call env (PyClass Person_cls) [v]) (\<lambda>p. getattr p ''_name'') s)
     = fst (py_bind (call env (PyClass Person_cls) [v]) (\<lambda>p. getattr p ''name'') s)"
  by (simp add: py_bind_def call_def Person_run getattr_def class_attr_def Person_name_def
      load_attr_def)

text \<open>
  C10. Once an object exists in a session, nothing the program does changes it. If
  after the cells \<open>cs\<close> there is an object at address \<open>a\<close>, then the statement
  \<open>print(p.name)\<close> on it leaves it as it is, and after any further cells \<open>cs'\<close> the
  object is still the same, with the same \<open>_name\<close>; so \<open>p.name\<close> reads the same value
  every time.
\<close>

theorem underscore_name_preserved:
  "heap (exec_cells env cs fresh) a = Some ob \<Longrightarrow>
     heap (snd (py_bind (getattr (PyRef a) ''name'') (print env) (exec_cells env cs fresh))) a
       = Some ob
     \<and> heap (exec_cells env cs' (exec_cells env cs fresh)) a = Some ob
     \<and> fst (getattr (PyRef a) ''name'' (exec_cells env cs' (exec_cells env cs fresh)))
       = fst (getattr (PyRef a) ''name'' (exec_cells env cs fresh))"
proof -
  assume h: "heap (exec_cells env cs fresh) a = Some ob"
  have "\<forall>a\<ge>next_addr fresh. heap fresh a = None" by (simp add: fresh_def)
  from exec_cells_heap_bound [OF this, of env cs] h
  have "a < next_addr (exec_cells env cs fresh)"
    by (metis not_le_imp_less option.distinct(1))
  from exec_cells_heap [OF this, of env cs']
  have e: "heap (exec_cells env cs' (exec_cells env cs fresh)) a
             = heap (exec_cells env cs fresh) a" .
  have "heap (snd (py_bind (getattr (PyRef a) ''name'') (print env) t)) = heap t" for t
    using getattr_frame [of "PyRef a" "''name''" t]
    by (cases "getattr (PyRef a) ''name'' t") (auto simp: py_bind_def print_def split: sum.splits)
  with e h getattr_heap_cong [OF e] show ?thesis by simp
qed

theorem underscore_name_preserved_witness:
  "heap (exec_cells recorded_env [Cell3] fresh) 0
     = Some \<lparr>obj_class = Person_cls, obj_dict = [''_name'' \<mapsto> PyStr ''Alice'']\<rparr>
   \<and> heap (exec_cells recorded_env [Cell2, Cell3, Cell1] (exec_cells recorded_env [Cell3] fresh)) 0
     = Some \<lparr>obj_class = Person_cls, obj_dict = [''_name'' \<mapsto> PyStr ''Alice'']\<rparr>
   \<and> fst (getattr (PyRef 0) ''name''
        (exec_cells recorded_env [Cell2, Cell3, Cell1] (exec_cells recorded_env [Cell3] fresh)))
     = Inr (PyStr ''Alice'')"
proof -
  have h: "heap (exec_cells recorded_env [Cell3] fresh) 0
     = Some \<lparr>obj_class = Person_cls, obj_dict = [''_name'' \<mapsto> PyStr ''Alice'']\<rparr>"
    by (simp add: run_cell_unfold cell3_run fresh_def)
  have g: "fst (getattr (PyRef 0) ''name'' (exec_cells recorded_env [Cell3] fresh))
             = Inr (PyStr ''Alice'')"
    by (simp add: run_cell_unfold cell3_run fresh_def getattr_def class_attr_def Person_name_def
        load_attr_def)
  from underscore_name_preserved [OF h, of "[Cell2, Cell3, Cell1]"] h g
  show ?thesis by simp
qed

end
